theory Spec2Isabelle
  imports Main
begin

section \<open>Data\<close>

text \<open>
  A lead as the API returns it in the body of \<^verbatim>\<open>GET /api/leads\<close>. The component reads
  the fields \<^verbatim>\<open>id\<close>, \<^verbatim>\<open>first_name\<close>, \<^verbatim>\<open>last_name\<close>, \<^verbatim>\<open>company\<close>, \<^verbatim>\<open>email\<close>, \<^verbatim>\<open>note\<close> and
  \<^verbatim>\<open>date_last_updated\<close>. The identifier is only used as the React key of a row; it is
  called \<open>lead_id\<close> here because \<open>id\<close> is the identity function of HOL.
\<close>

record lead =
  lead_id :: nat
  first_name :: string
  last_name :: string
  company :: string
  email :: string
  "note" :: string
  date_last_updated :: string

text \<open>
  \<^verbatim>\<open>activeModal\<close> starts as \<^verbatim>\<open>false\<close>, is set to \<^verbatim>\<open>true\<close> by the "Create Lead" button,
  to \<^verbatim>\<open>!activeModal\<close> and then to \<^verbatim>\<open>null\<close> by \<^verbatim>\<open>handleModal\<close>: three JavaScript values.
\<close>

datatype js_flag = JFalse | JTrue | JNull

fun truthy :: "js_flag \<Rightarrow> bool" where
  "truthy JTrue = True"
| "truthy JFalse = False"
| "truthy JNull = False"

text \<open>JavaScript's \<^verbatim>\<open>!x\<close> on these values.\<close>

fun js_not :: "js_flag \<Rightarrow> js_flag" where
  "js_not x = (if truthy x then JFalse else JTrue)"

text \<open>
  The state of \<^verbatim>\<open>Table\<close>: the token read from \<^verbatim>\<open>UserContext\<close> and the five
  \<^verbatim>\<open>useState\<close> cells. \<^verbatim>\<open>leads\<close> is \<^verbatim>\<open>null\<close> (\<open>None\<close>) until a load succeeds. The state
  variable \<^verbatim>\<open>id\<close> is called \<open>target_id\<close>; no code path calls \<^verbatim>\<open>setId\<close>.
\<close>

record Table_state =
  token :: string
  leads :: "lead list option"
  errorMessage :: string
  loaded :: bool
  activeModal :: js_flag
  target_id :: "nat option"

text \<open>The state of \<^verbatim>\<open>LeadModal\<close>: the five controlled inputs.\<close>

record LeadModal_state =
  firstName :: string
  lastName :: string
  company :: string
  email :: string
  "note" :: string

text \<open>
  A call of \<^verbatim>\<open>fetch(url, requestOptions)\<close>. The GET request has no body.
\<close>

record request =
  url :: string
  "method" :: string
  headers :: "(string \<times> string) list"
  body :: "string option"

text \<open>
  What \<^verbatim>\<open>await fetch(...)\<close> gives: the promise rejects (no response at all), or it
  resolves to a response with its \<^verbatim>\<open>ok\<close> flag and the value of \<^verbatim>\<open>response.json()\<close>,
  which by the API's contract is a sequence of leads.
\<close>

record response =
  ok :: bool
  json :: "lead list"

datatype fetch_result = Rejected | Resolved response

text \<open>
  The whole application: both components' state and the requests sent so far, oldest
  first.
\<close>

record app =
  table :: Table_state
  modal :: LeadModal_state
  sent :: "request list"

section \<open>Table\<close>

definition initial_Table :: "string \<Rightarrow> Table_state" where
  "initial_Table tok =
     \<lparr>token = tok, leads = None, errorMessage = [], loaded = False,
      activeModal = JFalse, target_id = None\<rparr>"

definition initial_LeadModal :: LeadModal_state where
  "initial_LeadModal =
     \<lparr>firstName = [], lastName = [], company = [], email = [], note = []\<rparr>"

definition initial_app :: "string \<Rightarrow> app" where
  "initial_app tok = \<lparr>table = initial_Table tok, modal = initial_LeadModal, sent = []\<rparr>"

text \<open>The setters of \<^verbatim>\<open>useState\<close> write the current state, whenever they are called.\<close>

definition setLeads :: "lead list \<Rightarrow> app \<Rightarrow> app" where
  "setLeads d a = a\<lparr>table := (table a)\<lparr>leads := Some d\<rparr>\<rparr>"

definition setErrorMessage :: "string \<Rightarrow> app \<Rightarrow> app" where
  "setErrorMessage m a = a\<lparr>table := (table a)\<lparr>errorMessage := m\<rparr>\<rparr>"

definition setLoaded :: "bool \<Rightarrow> app \<Rightarrow> app" where
  "setLoaded b a = a\<lparr>table := (table a)\<lparr>loaded := b\<rparr>\<rparr>"

definition setActiveModal :: "js_flag \<Rightarrow> app \<Rightarrow> app" where
  "setActiveModal f a = a\<lparr>table := (table a)\<lparr>activeModal := f\<rparr>\<rparr>"

definition fetch :: "string \<Rightarrow> request \<Rightarrow> app \<Rightarrow> app" where
  "fetch u requestOptions a = a\<lparr>sent := sent a @ [requestOptions\<lparr>url := u\<rparr>]\<rparr>"

text \<open>
  A function defined in the body of a component reads the state variables of the render
  that created it. Each handler below therefore takes that render's state (\<open>t\<close>, of
  \<^verbatim>\<open>Table\<close>) next to the application state \<open>a\<close> it runs on; the two differ when a handler
  created by an earlier render runs later, as the continuation of an \<^verbatim>\<open>await\<close> does.

  \<^verbatim>\<open>getLeads\<close> is an \<^verbatim>\<open>async\<close> function with one \<^verbatim>\<open>await fetch\<close>. Calling it runs
  \<open>getLeads_fetch\<close>, the part up to the \<^verbatim>\<open>await\<close>, at once. \<open>getLeads_then\<close> is the rest of
  the body; it runs when the promise settles, on the state the application has by then.
  A rejected promise ends the function there, with no state written.
\<close>

definition getLeads_requestOptions :: "Table_state \<Rightarrow> request" where
  "getLeads_requestOptions t =
     \<lparr>url = [], method = ''GET'',
      headers = [(''Content-Type'', ''application/json''),
                 (''Authorization'', ''Bearer '' @ token t)],
      body = None\<rparr>"

definition getLeads_fetch :: "Table_state \<Rightarrow> app \<Rightarrow> app" where
  "getLeads_fetch t a = fetch ''/api/leads'' (getLeads_requestOptions t) a"

fun getLeads_then :: "fetch_result \<Rightarrow> app \<Rightarrow> app" where
  "getLeads_then Rejected a = a"
| "getLeads_then (Resolved r) a =
     (if \<not> ok r then setErrorMessage ''Something went wrong!'' a
      else setLoaded True (setLeads (json r) a))"

text \<open>The effect on mount: \<^verbatim>\<open>useEffect(() => { getLeads(); }, [])\<close>.\<close>

definition mount :: "app \<Rightarrow> app" where
  "mount a = getLeads_fetch (table a) a"

text \<open>
  \<^verbatim>\<open>handleModal\<close> writes \<^verbatim>\<open>activeModal\<close> twice and calls \<^verbatim>\<open>getLeads\<close> between the two
  writes; the second write, \<^verbatim>\<open>null\<close>, is the one that stays.
\<close>

definition handleModal :: "Table_state \<Rightarrow> app \<Rightarrow> app" where
  "handleModal t a =
     setActiveModal JNull (getLeads_fetch t (setActiveModal (js_not (activeModal t)) a))"

text \<open>The "Create Lead" button: \<^verbatim>\<open>onClick={() => setActiveModal(true)}\<close>.\<close>

definition click_Create_Lead :: "app \<Rightarrow> app" where
  "click_Create_Lead a = setActiveModal JTrue a"

text \<open>
  The props \<^verbatim>\<open>Table\<close> passes to \<^verbatim>\<open>LeadModal\<close>: \<^verbatim>\<open>active\<close>, \<^verbatim>\<open>handleModal\<close>, \<^verbatim>\<open>token\<close>,
  \<^verbatim>\<open>id\<close>, \<^verbatim>\<open>setErrorMessage\<close>. Two of them are functions on the state.
\<close>

record LeadModal_props =
  p_active :: js_flag
  p_handleModal :: "app \<Rightarrow> app"
  p_token :: string
  p_id :: "nat option"
  p_setErrorMessage :: "string \<Rightarrow> app \<Rightarrow> app"

definition Table_props :: "Table_state \<Rightarrow> LeadModal_props" where
  "Table_props t =
     \<lparr>p_active = activeModal t, p_handleModal = handleModal t, p_token = token t,
      p_id = target_id t, p_setErrorMessage = setErrorMessage\<rparr>"

subsection \<open>The date column\<close>

text \<open>
  The cell is \<^verbatim>\<open>moment(lead.date_last_updated).format('MMM Do YY')\<close>. The \<^verbatim>\<open>moment\<close>
  library is imported by the component; its code is not part of the repository. Which
  calendar date a timestamp string stands for depends on the library's parser and on the
  browser's time zone, so the render function below takes it as a parameter, \<open>moment\<close>; by
  the API's contract every timestamp is one the parser reads. The formatting of that date
  is modelled from the spec's description of the column.
\<close>

datatype month = Jan | Feb | Mar | Apr | May | Jun | Jul | Aug | Sep | Oct | Nov | Dec

record calendar_date =
  year :: nat
  month_of :: month
  day :: nat

text \<open>A natural number in decimal.\<close>

fun show_nat :: "nat \<Rightarrow> string" where
  "show_nat n =
     (if n < 10 then [''0123456789'' ! n]
      else show_nat (n div 10) @ [''0123456789'' ! (n mod 10)])"

declare show_nat.simps [simp del]

text \<open>
  Modelled from the spec: the part \<^verbatim>\<open>MMM\<close> of the pattern, which \<^verbatim>\<open>moment\<close> computes; the
  spec calls it the "abbreviated month name", as in "Jan 2nd 24".
\<close>

fun MMM :: "month \<Rightarrow> string" where
  "MMM Jan = ''Jan''" | "MMM Feb = ''Feb''" | "MMM Mar = ''Mar''" | "MMM Apr = ''Apr''"
| "MMM May = ''May''" | "MMM Jun = ''Jun''" | "MMM Jul = ''Jul''" | "MMM Aug = ''Aug''"
| "MMM Sep = ''Sep''" | "MMM Oct = ''Oct''" | "MMM Nov = ''Nov''" | "MMM Dec = ''Dec''"

text \<open>
  Modelled from the spec: the part \<^verbatim>\<open>Do\<close> of the pattern, which \<^verbatim>\<open>moment\<close> computes; the
  spec calls it the "ordinal day", as in "2nd". The suffix is that of English ordinals:
  th from 11 to 13, otherwise st, nd, rd after a last digit 1, 2, 3, and th after any
  other.
\<close>

definition ordinal_suffix :: "nat \<Rightarrow> string" where
  "ordinal_suffix n =
     (if (n mod 100) div 10 = 1 then ''th''
      else if n mod 10 = 1 then ''st''
      else if n mod 10 = 2 then ''nd''
      else if n mod 10 = 3 then ''rd''
      else ''th'')"

definition Do :: "nat \<Rightarrow> string" where
  "Do n = show_nat n @ ordinal_suffix n"

text \<open>
  Modelled from the spec: the part \<^verbatim>\<open>YY\<close> of the pattern, which \<^verbatim>\<open>moment\<close> computes; the
  spec calls it the "two-digit year", as in "24" for 2024.
\<close>

definition YY :: "nat \<Rightarrow> string" where
  "YY y = (if y mod 100 < 10 then ''0'' @ show_nat (y mod 100) else show_nat (y mod 100))"

text \<open>
  Modelled from the spec: \<^verbatim>\<open>format('MMM Do YY')\<close> of \<^verbatim>\<open>moment\<close>, the three parts in the
  order of the pattern, with its single spaces between them.
\<close>

definition format_MMM_Do_YY :: "calendar_date \<Rightarrow> string" where
  "format_MMM_Do_YY d = MMM (month_of d) @ '' '' @ Do (day d) @ '' '' @ YY (year d)"

subsection \<open>What Table renders\<close>

datatype td = Text string | Buttons "string list"

record tr =
  key :: nat
  tds :: "td list"

datatype Table_content = Table_elem (thead: "string list") (tbody: "tr list") | Loading

record Table_view =
  LeadModal_elem :: LeadModal_props
  button_elem :: string
  ErrorMessage_elem :: string
  content :: Table_content

definition Table_thead :: "string list" where
  "Table_thead =
     [''First Name'', ''Last Name'', ''Company'', ''Email'', ''Notes'', ''Last Updated'',
      ''Actions'']"

definition lead_tr :: "(string \<Rightarrow> calendar_date) \<Rightarrow> lead \<Rightarrow> tr" where
  "lead_tr moment l =
     \<lparr>key = lead_id l,
      tds = [Text (first_name l), Text (last_name l), Text (lead.company l),
             Text (lead.email l), Text (lead.note l),
             Text (format_MMM_Do_YY (moment (date_last_updated l))),
             Buttons [''Update'', ''Delete'']]\<rparr>"

text \<open>
  \<^verbatim>\<open>loaded && leads ? <table> : <p>Loading</p>\<close>: an array is truthy also when it is
  empty, \<^verbatim>\<open>null\<close> is not.
\<close>

definition Table_render :: "(string \<Rightarrow> calendar_date) \<Rightarrow> Table_state \<Rightarrow> Table_view" where
  "Table_render moment t =
     \<lparr>LeadModal_elem = Table_props t,
      button_elem = ''Create Lead'',
      ErrorMessage_elem = errorMessage t,
      content =
        (case leads t of
           None \<Rightarrow> Loading
         | Some ls \<Rightarrow> if loaded t then Table_elem Table_thead (map (lead_tr moment) ls)
                      else Loading)\<rparr>"

section \<open>LeadModal\<close>

text \<open>The setters of the five inputs and \<^verbatim>\<open>cleanFormData\<close>, which calls all five.\<close>

definition setFirstName :: "string \<Rightarrow> app \<Rightarrow> app" where
  "setFirstName v a = a\<lparr>modal := (modal a)\<lparr>firstName := v\<rparr>\<rparr>"

definition setLastName :: "string \<Rightarrow> app \<Rightarrow> app" where
  "setLastName v a = a\<lparr>modal := (modal a)\<lparr>lastName := v\<rparr>\<rparr>"

definition setCompany :: "string \<Rightarrow> app \<Rightarrow> app" where
  "setCompany v a = a\<lparr>modal := (modal a)\<lparr>LeadModal_state.company := v\<rparr>\<rparr>"

definition setEmail :: "string \<Rightarrow> app \<Rightarrow> app" where
  "setEmail v a = a\<lparr>modal := (modal a)\<lparr>LeadModal_state.email := v\<rparr>\<rparr>"

definition setNote :: "string \<Rightarrow> app \<Rightarrow> app" where
  "setNote v a = a\<lparr>modal := (modal a)\<lparr>LeadModal_state.note := v\<rparr>\<rparr>"

definition cleanFormData :: "app \<Rightarrow> app" where
  "cleanFormData a =
     setNote [] (setEmail [] (setCompany [] (setLastName [] (setFirstName [] a))))"

text \<open>
  The \<^verbatim>\<open>onChange\<close> handlers of the five inputs, \<^verbatim>\<open>(e) => setX(e.target.value)\<close>, as one
  function of the input that changed and its new value.
\<close>

datatype field = FirstName | LastName | Company | Email | Note

fun onChange :: "field \<Rightarrow> string \<Rightarrow> app \<Rightarrow> app" where
  "onChange FirstName v a = setFirstName v a"
| "onChange LastName v a = setLastName v a"
| "onChange Company v a = setCompany v a"
| "onChange Email v a = setEmail v a"
| "onChange Note v a = setNote v a"

text \<open>
  \<^verbatim>\<open>JSON.stringify\<close> on an object whose values are strings: the properties in the order
  they were written, each key and value quoted. Inside the quotes the double quote and the
  backslash are escaped with a backslash, the control characters below \<open>0x20\<close> become
  \<^verbatim>\<open>\b\<close>, \<^verbatim>\<open>\t\<close>, \<^verbatim>\<open>\n\<close>, \<^verbatim>\<open>\f\<close>, \<^verbatim>\<open>\r\<close> or \<^verbatim>\<open>\u00XX\<close>, and every other character
  stands for itself.
\<close>

definition hex_digit :: "nat \<Rightarrow> char" where
  "hex_digit n = ''0123456789abcdef'' ! (n mod 16)"

definition QuoteJSONChar :: "char \<Rightarrow> string" where
  "QuoteJSONChar c =
     (if c = CHR 0x22 then [CHR 0x5C, CHR 0x22]
      else if c = CHR 0x5C then [CHR 0x5C, CHR 0x5C]
      else if c = CHR 0x08 then [CHR 0x5C, CHR ''b'']
      else if c = CHR 0x09 then [CHR 0x5C, CHR ''t'']
      else if c = CHR 0x0A then [CHR 0x5C, CHR ''n'']
      else if c = CHR 0x0C then [CHR 0x5C, CHR ''f'']
      else if c = CHR 0x0D then [CHR 0x5C, CHR ''r'']
      else if (of_char c :: nat) < 32
        then [CHR 0x5C, CHR ''u'', CHR ''0'', CHR ''0'',
              hex_digit (of_char c div 16), hex_digit (of_char c mod 16)]
      else [c])"

definition QuoteJSONString :: "string \<Rightarrow> string" where
  "QuoteJSONString s = [CHR 0x22] @ concat (map QuoteJSONChar s) @ [CHR 0x22]"

fun join_commas :: "string list \<Rightarrow> string" where
  "join_commas [] = []"
| "join_commas [x] = x"
| "join_commas (x # y # ys) = x @ '','' @ join_commas (y # ys)"

definition JSON_stringify :: "(string \<times> string) list \<Rightarrow> string" where
  "JSON_stringify obj =
     ''{'' @ join_commas (map (\<lambda>(k, v). QuoteJSONString k @ '':'' @ QuoteJSONString v) obj)
       @ ''}''"

text \<open>
  \<^verbatim>\<open>handleCreateLead\<close>, like \<^verbatim>\<open>getLeads\<close>, in two parts around its \<^verbatim>\<open>await fetch\<close>. It
  reads the props \<open>p\<close> and the input values \<open>m\<close> of the render that created it; the setters
  it calls write the current state. \<^verbatim>\<open>e.preventDefault()\<close> writes no state.
\<close>

definition handleCreateLead_object :: "LeadModal_state \<Rightarrow> (string \<times> string) list" where
  "handleCreateLead_object m =
     [(''first_name'', firstName m), (''last_name'', lastName m),
      (''company'', LeadModal_state.company m), (''email'', LeadModal_state.email m),
      (''note'', LeadModal_state.note m)]"

definition handleCreateLead_requestOptions :: "LeadModal_props \<Rightarrow> LeadModal_state \<Rightarrow> request"
  where
  "handleCreateLead_requestOptions p m =
     \<lparr>url = [], method = ''POST'',
      headers = [(''Content-Type'', ''application/json''),
                 (''Authorization'', ''Bearer '' @ p_token p)],
      body = Some (JSON_stringify (handleCreateLead_object m))\<rparr>"

definition handleCreateLead_fetch :: "LeadModal_props \<Rightarrow> LeadModal_state \<Rightarrow> app \<Rightarrow> app" where
  "handleCreateLead_fetch p m a = fetch ''/api/leads'' (handleCreateLead_requestOptions p m) a"

fun handleCreateLead_then :: "LeadModal_props \<Rightarrow> fetch_result \<Rightarrow> app \<Rightarrow> app" where
  "handleCreateLead_then p Rejected a = a"
| "handleCreateLead_then p (Resolved r) a =
     (if \<not> ok r then p_setErrorMessage p ''Something went wrong when creating lead'' a
      else p_handleModal p (cleanFormData a))"

text \<open>
  The buttons of the modal. "Create" is rendered only while \<^verbatim>\<open>id\<close> is falsy, that is
  \<^verbatim>\<open>null\<close> or \<^verbatim>\<open>0\<close> (the "Update" button rendered otherwise has no handler); "Cancel" and
  the backdrop both have \<^verbatim>\<open>onClick={handleModal}\<close>.
\<close>

fun id_truthy :: "nat option \<Rightarrow> bool" where
  "id_truthy None = False"
| "id_truthy (Some n) = (n \<noteq> 0)"

definition click_Create :: "LeadModal_props \<Rightarrow> LeadModal_state \<Rightarrow> app \<Rightarrow> app" where
  "click_Create p m a = (if id_truthy (p_id p) then a else handleCreateLead_fetch p m a)"

definition click_Cancel :: "LeadModal_props \<Rightarrow> app \<Rightarrow> app" where
  "click_Cancel p a = p_handleModal p a"

definition click_background :: "LeadModal_props \<Rightarrow> app \<Rightarrow> app" where
  "click_background p a = p_handleModal p a"

text \<open>
  The class of the modal's root element, \<^verbatim>\<open>`modal ${active && 'is-active'}`\<close>: the modal
  is shown when the class \<^verbatim>\<open>is-active\<close> is there. \<^verbatim>\<open>x && y\<close> is \<open>y\<close> for a truthy \<open>x\<close> and
  \<open>x\<close> itself otherwise, which the template then prints.
\<close>

fun LeadModal_className :: "LeadModal_props \<Rightarrow> string" where
  "LeadModal_className p =
     ''modal '' @ (case p_active p of JTrue \<Rightarrow> ''is-active''
                                    | JFalse \<Rightarrow> ''false''
                                    | JNull \<Rightarrow> ''null'')"

section \<open>Reading a body\<close>

text \<open>
  Strings here are sequences of 8-bit characters. \<^verbatim>\<open>JSON.stringify\<close> escapes no character
  above \<open>0x1F\<close> other than the double quote, the backslash and a lone surrogate, and a
  lone surrogate is not a value these strings can hold. The characters written as
  themselves are the \<open>plain\<close> ones.
\<close>

definition plain :: "char \<Rightarrow> bool" where
  "plain c = (32 \<le> (of_char c :: nat) \<and> c \<noteq> CHR 0x22 \<and> c \<noteq> CHR 0x5C)"

text \<open>
  To say which keys and values the text of a body holds, a reader for the JSON text of an
  object whose values are strings, after the JSON grammar: a string ends at the first
  double quote that no backslash precedes; a backslash is followed by a
  double quote, a backslash, a slash, one of the letters \<^verbatim>\<open>b t n f r\<close>, or \<^verbatim>\<open>u\<close> and four
  hexadecimal digits; a control character is not
  allowed unescaped. An escape \<^verbatim>\<open>\uXXXX\<close> above \<open>0xFF\<close> stands for no 8-bit character and is
  refused. \<open>read_string\<close> reads a string after its opening quote and gives the string with
  the text after the closing quote.
\<close>

definition hex_value :: "char \<Rightarrow> nat option" where
  "hex_value c =
     (let n = (of_char c :: nat) in
      if 48 \<le> n \<and> n \<le> 57 then Some (n - 48)
      else if 97 \<le> n \<and> n \<le> 102 then Some (n - 87)
      else if 65 \<le> n \<and> n \<le> 70 then Some (n - 55)
      else None)"

definition simple_escape :: "char \<Rightarrow> char option" where
  "simple_escape e =
     (if e = CHR 0x22 then Some (CHR 0x22)
      else if e = CHR 0x5C then Some (CHR 0x5C)
      else if e = CHR ''/'' then Some (CHR ''/'')
      else if e = CHR ''b'' then Some (CHR 0x08)
      else if e = CHR ''t'' then Some (CHR 0x09)
      else if e = CHR ''n'' then Some (CHR 0x0A)
      else if e = CHR ''f'' then Some (CHR 0x0C)
      else if e = CHR ''r'' then Some (CHR 0x0D)
      else None)"

definition code_unit :: "char \<Rightarrow> char \<Rightarrow> char \<Rightarrow> char \<Rightarrow> char option" where
  "code_unit a b h l =
     (case (hex_value a, hex_value b, hex_value h, hex_value l) of
        (Some x, Some y, Some z, Some w) \<Rightarrow>
          if x = 0 \<and> y = 0 then Some (char_of (16 * z + w)) else None
      | _ \<Rightarrow> None)"

definition prepend :: "char \<Rightarrow> (string \<times> string) option \<Rightarrow> (string \<times> string) option" where
  "prepend c r = (case r of None \<Rightarrow> None | Some (s, rest) \<Rightarrow> Some (c # s, rest))"

fun read_string :: "string \<Rightarrow> (string \<times> string) option" where
  "read_string [] = None"
| "read_string (c # cs) =
     (if c = CHR 0x22 then Some ([], cs)
      else if c = CHR 0x5C then
        (case cs of
           [] \<Rightarrow> None
         | e # es \<Rightarrow>
             if e = CHR ''u'' then
               (case es of
                  a # b # h # l # rest \<Rightarrow>
                    (case code_unit a b h l of
                       None \<Rightarrow> None
                     | Some d \<Rightarrow> prepend d (read_string rest))
                | _ \<Rightarrow> None)
             else
               (case simple_escape e of
                  None \<Rightarrow> None
                | Some d \<Rightarrow> prepend d (read_string es)))
      else if (of_char c :: nat) < 32 then None
      else prepend c (read_string cs))"

text \<open>
  The members of an object after its opening brace, up to the closing brace, which must
  end the text. Each string read leaves less text than it was given, so the reading ends.
\<close>

function read_members :: "string \<Rightarrow> (string \<times> string) list option" where
  "read_members t =
     (case t of
        [] \<Rightarrow> None
      | q # t1 \<Rightarrow>
          if q = CHR 0x22 then
            (case read_string t1 of
               None \<Rightarrow> None
             | Some (k, t2) \<Rightarrow>
                 (case t2 of
                    c # q' # t3 \<Rightarrow>
                      if c = CHR '':'' \<and> q' = CHR 0x22 then
                        (case read_string t3 of
                           None \<Rightarrow> None
                         | Some (v, t4) \<Rightarrow>
                             (case t4 of
                                [] \<Rightarrow> None
                              | d # t5 \<Rightarrow>
                                  if d = CHR '','' then map_option ((#) (k, v)) (read_members t5)
                                  else if d = CHR ''}'' \<and> t5 = [] then Some [(k, v)]
                                  else None))
                      else None
                  | _ \<Rightarrow> None))
          else None)"
  by pat_completeness auto
termination
proof (relation "measure length", goal_cases)
  case 1
  then show ?case by simp
next
  case (2 t q t1 x2 k t2 c l q' t3 x2a v t4 d t5)
  have shorter: "length r < length u" if "read_string u = Some (s, r)" for u s r
    using that
  proof (induction u arbitrary: s r rule: read_string.induct)
    case 1
    then show ?case by simp
  next
    case (2 c cs)
    then show ?case
      by (auto simp: prepend_def split: if_splits list.splits option.splits prod.splits)
        fastforce+
  qed
  from 2 show ?case
    using shorter [of t1 k t2] shorter [of t3 v t4] by simp
qed

definition JSON_parse :: "string \<Rightarrow> (string \<times> string) list option" where
  "JSON_parse t =
     (case t of
        [] \<Rightarrow> None
      | c # cs \<Rightarrow>
          if c = CHR ''{'' then (if cs = ''}'' then Some [] else read_members cs)
          else None)"

text \<open>The text of one member, as \<open>JSON_stringify\<close> writes it.\<close>

definition member_text :: "string \<times> string \<Rightarrow> string" where
  "member_text kv = QuoteJSONString (fst kv) @ '':'' @ QuoteJSONString (snd kv)"

section \<open>Examples\<close>

text \<open>A string between double quotes, to spell JSON text.\<close>

definition dquote :: "string \<Rightarrow> string" where
  "dquote s = [CHR 0x22] @ s @ [CHR 0x22]"

text \<open>
  A loaded table with one lead, and a stand-in for \<^verbatim>\<open>moment\<close> that reads every timestamp
  as the second of January 2024.
\<close>

definition example_lead :: lead where
  "example_lead =
     \<lparr>lead_id = 1, first_name = ''Ada'', last_name = ''Lovelace'', company = ''Analytical'',
      email = ''ada@example.org'', note = ''call back'',
      date_last_updated = ''2024-01-02T09:30:00''\<rparr>"

definition example_Table :: Table_state where
  "example_Table = (initial_Table ''tok'')\<lparr>leads := Some [example_lead], loaded := True\<rparr>"

definition example_moment :: "string \<Rightarrow> calendar_date" where
  "example_moment s = \<lparr>year = 2024, month_of = Jan, day = 2\<rparr>"

text \<open>A form filled in with plain characters only.\<close>

definition example_LeadModal :: LeadModal_state where
  "example_LeadModal =
     \<lparr>firstName = ''Ada'', lastName = ''Lovelace'', company = ''Analytical'',
      email = ''ada@example.org'', note = ''call back''\<rparr>"

section \<open>What each handler writes\<close>

lemma table_getLeads_fetch: "table (getLeads_fetch t a) = table a"
  by (simp add: getLeads_fetch_def fetch_def)

lemma modal_getLeads_fetch: "modal (getLeads_fetch t a) = modal a"
  by (simp add: getLeads_fetch_def fetch_def)

lemma sent_getLeads_fetch:
  "sent (getLeads_fetch t a) = sent a @ [(getLeads_requestOptions t)\<lparr>url := ''/api/leads''\<rparr>]"
  by (simp add: getLeads_fetch_def fetch_def)

lemma table_handleModal: "table (handleModal t a) = (table a)\<lparr>activeModal := JNull\<rparr>"
  by (simp add: handleModal_def setActiveModal_def table_getLeads_fetch)

lemma modal_handleModal: "modal (handleModal t a) = modal a"
  by (simp add: handleModal_def setActiveModal_def modal_getLeads_fetch)

lemma sent_handleModal:
  "sent (handleModal t a) = sent a @ [(getLeads_requestOptions t)\<lparr>url := ''/api/leads''\<rparr>]"
  by (simp add: handleModal_def setActiveModal_def sent_getLeads_fetch)

lemma modal_cleanFormData: "modal (cleanFormData a) = initial_LeadModal"
  by (simp add: cleanFormData_def setFirstName_def setLastName_def setCompany_def
      setEmail_def setNote_def initial_LeadModal_def)

lemma table_cleanFormData: "table (cleanFormData a) = table a"
  by (simp add: cleanFormData_def setFirstName_def setLastName_def setCompany_def
      setEmail_def setNote_def)

lemma sent_cleanFormData: "sent (cleanFormData a) = sent a"
  by (simp add: cleanFormData_def setFirstName_def setLastName_def setCompany_def
      setEmail_def setNote_def)

section \<open>Loading the list\<close>

text \<open>
  C1. A call of \<^verbatim>\<open>getLeads\<close> whose response is not ok: sending the request writes no
  state of the table, and the continuation sets the error message to
  "Something went wrong!" and leaves the lead list and the loaded flag as they were, for
  every state and every response body; what the table shows in place of the list (the
  rows loaded before, or the placeholder) is the same as before.
\<close>

theorem getLeads_failure:
  "table (getLeads_fetch t a) = table a \<and>
   errorMessage (table (getLeads_then (Resolved \<lparr>ok = False, json = d\<rparr>) a))
     = ''Something went wrong!'' \<and>
   leads (table (getLeads_then (Resolved \<lparr>ok = False, json = d\<rparr>) a)) = leads (table a) \<and>
   loaded (table (getLeads_then (Resolved \<lparr>ok = False, json = d\<rparr>) a)) = loaded (table a) \<and>
   content (Table_render moment (table (getLeads_then (Resolved \<lparr>ok = False, json = d\<rparr>) a)))
     = content (Table_render moment (table a))"
  by (simp add: table_getLeads_fetch setErrorMessage_def Table_render_def split: option.split)

text \<open>
  C2. A successful \<^verbatim>\<open>getLeads\<close>: the list becomes the whole sequence \<open>d\<close> of the response,
  the loaded flag becomes true, and the table is rendered with one row per record, in
  order; the first five cells of each row are the record's first name, last name, company,
  email and note. For the empty sequence the table is rendered with no body row.
\<close>

theorem getLeads_success:
  "leads (table (getLeads_then (Resolved \<lparr>ok = True, json = d\<rparr>) a)) = Some d \<and>
   loaded (table (getLeads_then (Resolved \<lparr>ok = True, json = d\<rparr>) a)) \<and>
   content (Table_render moment (table (getLeads_then (Resolved \<lparr>ok = True, json = d\<rparr>) a)))
     = Table_elem Table_thead (map (lead_tr moment) d) \<and>
   length (map (lead_tr moment) d) = length d \<and>
   map (\<lambda>r. take 5 (tds r)) (map (lead_tr moment) d)
     = map (\<lambda>l. [Text (first_name l), Text (last_name l), Text (lead.company l),
                  Text (lead.email l), Text (lead.note l)]) d \<and>
   content (Table_render moment (table (getLeads_then (Resolved \<lparr>ok = True, json = []\<rparr>) a)))
     = Table_elem Table_thead []"
  by (simp add: setLoaded_def setLeads_def Table_render_def lead_tr_def)

text \<open>
  C7. A successful \<^verbatim>\<open>getLeads\<close> leaves the error message as it was: neither sending the
  request nor the success branch writes it, so the message set earlier is the one
  rendered after the reload.
\<close>

theorem getLeads_success_keeps_errorMessage:
  "errorMessage (table (getLeads_fetch t a)) = errorMessage (table a) \<and>
   errorMessage (table (getLeads_then (Resolved \<lparr>ok = True, json = d\<rparr>) a))
     = errorMessage (table a) \<and>
   ErrorMessage_elem
       (Table_render moment (table (getLeads_then (Resolved \<lparr>ok = True, json = d\<rparr>) a)))
     = errorMessage (table a)"
  by (simp add: table_getLeads_fetch setLoaded_def setLeads_def Table_render_def)

section \<open>Creating a lead\<close>

text \<open>
  C3, as stated, fails on the message: after a create request that is not ok, from the
  initial state, the error message is not "failed when creating lead".
\<close>

theorem handleCreateLead_failure_message_counterexample:
  "errorMessage (table (handleCreateLead_then (Table_props (initial_Table ''t''))
      (Resolved \<lparr>ok = False, json = []\<rparr>) (initial_app ''t'')))
     \<noteq> ''failed when creating lead''"
  by (simp add: Table_props_def setErrorMessage_def initial_app_def)

text \<open>
  C3, amended. A call of \<^verbatim>\<open>handleCreateLead\<close> whose response is not ok: sending the
  request writes neither component's state, and the continuation sets the error message
  to "Something went wrong when creating lead", which is not the message of a failed
  load, leaves the five inputs and \<^verbatim>\<open>activeModal\<close> as they were, and sends nothing.
\<close>

theorem handleCreateLead_failure:
  "table (handleCreateLead_fetch p m a) = table a \<and>
   modal (handleCreateLead_fetch p m a) = modal a \<and>
   errorMessage
       (table (handleCreateLead_then (Table_props t) (Resolved \<lparr>ok = False, json = d\<rparr>) a))
     = ''Something went wrong when creating lead'' \<and>
   errorMessage
       (table (handleCreateLead_then (Table_props t) (Resolved \<lparr>ok = False, json = d\<rparr>) a))
     \<noteq> errorMessage (table (getLeads_then (Resolved \<lparr>ok = False, json = d\<rparr>) a)) \<and>
   modal (handleCreateLead_then (Table_props t) (Resolved \<lparr>ok = False, json = d\<rparr>) a)
     = modal a \<and>
   activeModal
       (table (handleCreateLead_then (Table_props t) (Resolved \<lparr>ok = False, json = d\<rparr>) a))
     = activeModal (table a) \<and>
   sent (handleCreateLead_then (Table_props t) (Resolved \<lparr>ok = False, json = d\<rparr>) a) = sent a"
  by (simp add: Table_props_def setErrorMessage_def handleCreateLead_fetch_def fetch_def)

text \<open>
  C4. A call of \<^verbatim>\<open>handleCreateLead\<close> whose response is ok: the continuation clears the
  form and calls the \<^verbatim>\<open>handleModal\<close> prop, which is the table's \<^verbatim>\<open>handleModal\<close>; afterwards
  the five inputs are empty and exactly one request has been added to those sent, the
  \<^verbatim>\<open>GET /api/leads\<close> of \<^verbatim>\<open>getLeads\<close>.
\<close>

theorem handleCreateLead_success:
  "handleCreateLead_then (Table_props t) (Resolved \<lparr>ok = True, json = d\<rparr>) a
     = p_handleModal (Table_props t) (cleanFormData a) \<and>
   p_handleModal (Table_props t) = handleModal t \<and>
   modal (handleCreateLead_then (Table_props t) (Resolved \<lparr>ok = True, json = d\<rparr>) a)
     = \<lparr>firstName = [], lastName = [], company = [], email = [], note = []\<rparr> \<and>
   sent (handleCreateLead_then (Table_props t) (Resolved \<lparr>ok = True, json = d\<rparr>) a)
     = sent a @ [(getLeads_requestOptions t)\<lparr>url := ''/api/leads''\<rparr>] \<and>
   method (getLeads_requestOptions t) = ''GET''"
  by (simp add: Table_props_def modal_handleModal sent_handleModal modal_cleanFormData
      sent_cleanFormData initial_LeadModal_def getLeads_requestOptions_def)

subsection \<open>The body of the create request\<close>

lemma hex_value_hex_digit: "k < 16 \<Longrightarrow> hex_value (hex_digit k) = Some k"
proof -
  assume "k < 16"
  then have "k = 0 \<or> k = 1 \<or> k = 2 \<or> k = 3 \<or> k = 4 \<or> k = 5 \<or> k = 6 \<or> k = 7 \<or> k = 8 \<or> k = 9
      \<or> k = 10 \<or> k = 11 \<or> k = 12 \<or> k = 13 \<or> k = 14 \<or> k = 15"
    by arith
  then show ?thesis
    by (auto simp: hex_digit_def hex_value_def)
qed

lemma code_unit_hex:
  assumes "(of_char c :: nat) < 32"
  shows "code_unit (CHR ''0'') (CHR ''0'') (hex_digit (of_char c div 16))
           (hex_digit (of_char c mod 16)) = Some c"
proof -
  have z: "hex_value (CHR ''0'') = Some 0"
    by (simp add: hex_value_def)
  have h: "hex_value (hex_digit (of_char c div 16)) = Some (of_char c div 16)"
    using assms by (intro hex_value_hex_digit) simp
  have l: "hex_value (hex_digit (of_char c mod 16)) = Some (of_char c mod 16)"
    by (intro hex_value_hex_digit) simp
  have "char_of (16 * ((of_char c :: nat) div 16) + of_char c mod 16) = c"
    by simp
  then show ?thesis
    by (simp add: code_unit_def z h l)
qed

lemma read_string_QuoteJSONChar:
  "read_string (QuoteJSONChar c @ rest) = prepend c (read_string rest)"
proof (cases "c \<in> {CHR 0x22, CHR 0x5C, CHR 0x08, CHR 0x09, CHR 0x0A, CHR 0x0C, CHR 0x0D}")
  case True
  then show ?thesis
    by (auto simp: QuoteJSONChar_def simple_escape_def)
next
  case False
  show ?thesis
  proof (cases "(of_char c :: nat) < 32")
    case True
    with False show ?thesis
      by (simp add: QuoteJSONChar_def code_unit_hex)
  next
    case False
    with \<open>c \<notin> _\<close> show ?thesis
      by (simp add: QuoteJSONChar_def)
  qed
qed

lemma read_string_QuoteJSONString:
  "read_string (concat (map QuoteJSONChar s) @ CHR 0x22 # rest) = Some (s, rest)"
proof (induction s)
  case Nil
  then show ?case by simp
next
  case (Cons c s)
  have "read_string (concat (map QuoteJSONChar (c # s)) @ CHR 0x22 # rest)
      = read_string (QuoteJSONChar c @ (concat (map QuoteJSONChar s) @ CHR 0x22 # rest))"
    by simp
  also have "\<dots> = prepend c (read_string (concat (map QuoteJSONChar s) @ CHR 0x22 # rest))"
    by (rule read_string_QuoteJSONChar)
  also have "\<dots> = Some (c # s, rest)"
    by (simp add: Cons.IH prepend_def)
  finally show ?case .
qed

lemma read_members_last: "read_members (member_text (k, v) @ ''}'') = Some [(k, v)]"
  by (subst read_members.simps)
    (simp add: member_text_def QuoteJSONString_def read_string_QuoteJSONString)

lemma read_members_more:
  "read_members (member_text (k, v) @ '','' @ t) = map_option ((#) (k, v)) (read_members t)"
  by (subst read_members.simps)
    (simp add: member_text_def QuoteJSONString_def read_string_QuoteJSONString)

lemma read_members_join:
  "read_members (join_commas (map member_text (x # xs)) @ ''}'') = Some (x # xs)"
proof (induction xs arbitrary: x)
  case Nil
  then show ?case
    using read_members_last [of "fst x" "snd x"] by simp
next
  case (Cons y ys)
  then show ?case
    using read_members_more [of "fst x" "snd x" "join_commas (map member_text (y # ys)) @ ''}''"]
    by simp
qed

lemma JSON_stringify_member_text:
  "JSON_stringify obj = ''{'' @ join_commas (map member_text obj) @ ''}''"
proof -
  have "(\<lambda>(k, v). QuoteJSONString k @ '':'' @ QuoteJSONString v) = member_text"
    by (simp add: member_text_def fun_eq_iff)
  then show ?thesis
    by (simp add: JSON_stringify_def)
qed

lemma member_text_not_Nil: "join_commas (map member_text (x # xs)) @ ''}'' \<noteq> ''}''"
  by (cases xs) (simp_all add: member_text_def QuoteJSONString_def)

lemma JSON_parse_stringify: "JSON_parse (JSON_stringify obj) = Some obj"
proof (cases obj)
  case Nil
  then show ?thesis
    by (simp add: JSON_stringify_def JSON_parse_def)
next
  case (Cons x xs)
  then show ?thesis
    using read_members_join [of x xs] member_text_not_Nil [of x xs]
    by (simp add: JSON_stringify_member_text JSON_parse_def)
qed

lemma QuoteJSONChar_plain: "plain c \<Longrightarrow> QuoteJSONChar c = [c]"
  by (auto simp: plain_def QuoteJSONChar_def)

lemma QuoteJSONString_plain: "list_all plain s \<Longrightarrow> QuoteJSONString s = dquote s"
  by (induction s) (simp_all add: QuoteJSONString_def dquote_def QuoteJSONChar_plain)

text \<open>
  C5. Every call of \<^verbatim>\<open>handleCreateLead\<close> sends one \<^verbatim>\<open>POST /api/leads\<close>, whatever the inputs
  hold. Its body is the JSON text of the object with the keys \<^verbatim>\<open>first_name\<close>, \<^verbatim>\<open>last_name\<close>,
  \<^verbatim>\<open>company\<close>, \<^verbatim>\<open>email\<close>, \<^verbatim>\<open>note\<close>, in this order and no other key (so neither \<^verbatim>\<open>id\<close> nor
  \<^verbatim>\<open>date_last_updated\<close>), bound to the five input values: reading the body back gives
  exactly these five keys with the values of the inputs, for all values, and when the
  inputs hold plain characters only the body is the text with each value written between
  double quotes as it stands. With five empty inputs the body is the text with the five
  keys bound to the empty string.
\<close>

theorem handleCreateLead_body:
  "sent (handleCreateLead_fetch p m a)
     = sent a @ [(handleCreateLead_requestOptions p m)\<lparr>url := ''/api/leads''\<rparr>] \<and>
   method (handleCreateLead_requestOptions p m) = ''POST'' \<and>
   body (handleCreateLead_requestOptions p m)
     = Some (JSON_stringify (handleCreateLead_object m)) \<and>
   map fst (handleCreateLead_object m)
     = [''first_name'', ''last_name'', ''company'', ''email'', ''note''] \<and>
   map snd (handleCreateLead_object m)
     = [firstName m, lastName m, LeadModal_state.company m, LeadModal_state.email m,
        LeadModal_state.note m] \<and>
   ''id'' \<notin> fst ` set (handleCreateLead_object m) \<and>
   ''date_last_updated'' \<notin> fst ` set (handleCreateLead_object m) \<and>
   body (handleCreateLead_requestOptions p
          \<lparr>firstName = [], lastName = [], company = [], email = [], note = []\<rparr>)
     = Some (''{'' @ dquote ''first_name'' @ '':'' @ dquote [] @ '','' @
                    dquote ''last_name'' @ '':'' @ dquote [] @ '','' @
                    dquote ''company'' @ '':'' @ dquote [] @ '','' @
                    dquote ''email'' @ '':'' @ dquote [] @ '','' @
                    dquote ''note'' @ '':'' @ dquote [] @ ''}'') \<and>
   map_option JSON_parse (body (handleCreateLead_requestOptions p m))
     = Some (Some [(''first_name'', firstName m), (''last_name'', lastName m),
                   (''company'', LeadModal_state.company m),
                   (''email'', LeadModal_state.email m),
                   (''note'', LeadModal_state.note m)]) \<and>
   (list_all plain
        (firstName m @ lastName m @ LeadModal_state.company m @ LeadModal_state.email m
           @ LeadModal_state.note m) \<longrightarrow>
    body (handleCreateLead_requestOptions p m)
      = Some (''{'' @ dquote ''first_name'' @ '':'' @ dquote (firstName m) @ '','' @
                     dquote ''last_name'' @ '':'' @ dquote (lastName m) @ '','' @
                     dquote ''company'' @ '':'' @ dquote (LeadModal_state.company m) @ '','' @
                     dquote ''email'' @ '':'' @ dquote (LeadModal_state.email m) @ '','' @
                     dquote ''note'' @ '':'' @ dquote (LeadModal_state.note m) @ ''}''))"
proof -
  have sent: "sent (handleCreateLead_fetch p m a)
      = sent a @ [(handleCreateLead_requestOptions p m)\<lparr>url := ''/api/leads''\<rparr>]"
    by (simp add: handleCreateLead_fetch_def fetch_def)
  have req: "method (handleCreateLead_requestOptions p m) = ''POST''"
    "body (handleCreateLead_requestOptions p m)
       = Some (JSON_stringify (handleCreateLead_object m))"
    by (simp_all add: handleCreateLead_requestOptions_def)
  have keys: "map fst (handleCreateLead_object m)
      = [''first_name'', ''last_name'', ''company'', ''email'', ''note'']"
    "map snd (handleCreateLead_object m)
      = [firstName m, lastName m, LeadModal_state.company m, LeadModal_state.email m,
         LeadModal_state.note m]"
    "''id'' \<notin> fst ` set (handleCreateLead_object m)"
    "''date_last_updated'' \<notin> fst ` set (handleCreateLead_object m)"
    by (simp_all add: handleCreateLead_object_def)
  have empty: "body (handleCreateLead_requestOptions p
          \<lparr>firstName = [], lastName = [], company = [], email = [], note = []\<rparr>)
     = Some (''{'' @ dquote ''first_name'' @ '':'' @ dquote [] @ '','' @
                    dquote ''last_name'' @ '':'' @ dquote [] @ '','' @
                    dquote ''company'' @ '':'' @ dquote [] @ '','' @
                    dquote ''email'' @ '':'' @ dquote [] @ '','' @
                    dquote ''note'' @ '':'' @ dquote [] @ ''}'')"
    by (simp add: handleCreateLead_requestOptions_def handleCreateLead_object_def
        JSON_stringify_def QuoteJSONString_def QuoteJSONChar_def dquote_def)
  have parse: "map_option JSON_parse (body (handleCreateLead_requestOptions p m))
     = Some (Some [(''first_name'', firstName m), (''last_name'', lastName m),
                   (''company'', LeadModal_state.company m),
                   (''email'', LeadModal_state.email m),
                   (''note'', LeadModal_state.note m)])"
    by (simp add: req JSON_parse_stringify) (simp add: handleCreateLead_object_def)
  have keys_plain: "QuoteJSONString ''first_name'' = dquote ''first_name''"
    "QuoteJSONString ''last_name'' = dquote ''last_name''"
    "QuoteJSONString ''company'' = dquote ''company''"
    "QuoteJSONString ''email'' = dquote ''email''"
    "QuoteJSONString ''note'' = dquote ''note''"
    by (simp_all add: QuoteJSONString_plain plain_def)
  have written: "body (handleCreateLead_requestOptions p m)
      = Some (''{'' @ dquote ''first_name'' @ '':'' @ dquote (firstName m) @ '','' @
                     dquote ''last_name'' @ '':'' @ dquote (lastName m) @ '','' @
                     dquote ''company'' @ '':'' @ dquote (LeadModal_state.company m) @ '','' @
                     dquote ''email'' @ '':'' @ dquote (LeadModal_state.email m) @ '','' @
                     dquote ''note'' @ '':'' @ dquote (LeadModal_state.note m) @ ''}'')"
    if "list_all plain
        (firstName m @ lastName m @ LeadModal_state.company m @ LeadModal_state.email m
           @ LeadModal_state.note m)"
    using that
    by (simp add: req JSON_stringify_def handleCreateLead_object_def keys_plain
        QuoteJSONString_plain)
  from sent req keys empty parse written show ?thesis
    by blast
qed

theorem handleCreateLead_body_witness:
  "list_all plain
     (firstName example_LeadModal @ lastName example_LeadModal
        @ LeadModal_state.company example_LeadModal @ LeadModal_state.email example_LeadModal
        @ LeadModal_state.note example_LeadModal) \<and>
   body (handleCreateLead_requestOptions (Table_props (initial_Table ''tok'')) example_LeadModal)
     = Some (''{'' @ dquote ''first_name'' @ '':'' @ dquote ''Ada'' @ '','' @
                    dquote ''last_name'' @ '':'' @ dquote ''Lovelace'' @ '','' @
                    dquote ''company'' @ '':'' @ dquote ''Analytical'' @ '','' @
                    dquote ''email'' @ '':'' @ dquote ''ada@example.org'' @ '','' @
                    dquote ''note'' @ '':'' @ dquote ''call back'' @ ''}'')"
proof -
  have h: "list_all plain
     (firstName example_LeadModal @ lastName example_LeadModal
        @ LeadModal_state.company example_LeadModal @ LeadModal_state.email example_LeadModal
        @ LeadModal_state.note example_LeadModal)"
    by (simp add: example_LeadModal_def plain_def)
  have "list_all plain
     (firstName example_LeadModal @ lastName example_LeadModal
        @ LeadModal_state.company example_LeadModal @ LeadModal_state.email example_LeadModal
        @ LeadModal_state.note example_LeadModal) \<longrightarrow>
    body (handleCreateLead_requestOptions (Table_props (initial_Table ''tok'')) example_LeadModal)
      = Some (''{'' @ dquote ''first_name'' @ '':'' @ dquote (firstName example_LeadModal)
                @ '','' @ dquote ''last_name'' @ '':'' @ dquote (lastName example_LeadModal)
                @ '','' @ dquote ''company'' @ '':''
                @ dquote (LeadModal_state.company example_LeadModal)
                @ '','' @ dquote ''email'' @ '':''
                @ dquote (LeadModal_state.email example_LeadModal)
                @ '','' @ dquote ''note'' @ '':''
                @ dquote (LeadModal_state.note example_LeadModal) @ ''}'')"
    using handleCreateLead_body
      [of "Table_props (initial_Table ''tok'')" example_LeadModal "initial_app ''tok''"]
    by blast
  with h have "body (handleCreateLead_requestOptions (Table_props (initial_Table ''tok''))
        example_LeadModal)
      = Some (''{'' @ dquote ''first_name'' @ '':'' @ dquote (firstName example_LeadModal)
                @ '','' @ dquote ''last_name'' @ '':'' @ dquote (lastName example_LeadModal)
                @ '','' @ dquote ''company'' @ '':''
                @ dquote (LeadModal_state.company example_LeadModal)
                @ '','' @ dquote ''email'' @ '':''
                @ dquote (LeadModal_state.email example_LeadModal)
                @ '','' @ dquote ''note'' @ '':''
                @ dquote (LeadModal_state.note example_LeadModal) @ ''}'')"
    by (rule rev_mp)
  moreover have "firstName example_LeadModal = ''Ada''" "lastName example_LeadModal = ''Lovelace''"
    "LeadModal_state.company example_LeadModal = ''Analytical''"
    "LeadModal_state.email example_LeadModal = ''ada@example.org''"
    "LeadModal_state.note example_LeadModal = ''call back''"
    by (simp_all add: example_LeadModal_def)
  ultimately show ?thesis
    using h by simp
qed

text \<open>
  C6. "Cancel" calls the \<^verbatim>\<open>handleModal\<close> prop, the function a successful create calls
  after clearing the form, and that is the table's \<^verbatim>\<open>handleModal\<close>. A cancel adds exactly
  one request to those sent, the \<^verbatim>\<open>GET /api/leads\<close> of \<^verbatim>\<open>getLeads\<close>, which has no body, and
  leaves \<^verbatim>\<open>activeModal\<close> at \<^verbatim>\<open>null\<close>, so that the modal is rendered without the class
  \<^verbatim>\<open>is-active\<close>.
\<close>

theorem cancel_reloads:
  "click_Cancel (Table_props t) a = p_handleModal (Table_props t) a \<and>
   handleCreateLead_then (Table_props t) (Resolved \<lparr>ok = True, json = d\<rparr>) a
     = p_handleModal (Table_props t) (cleanFormData a) \<and>
   p_handleModal (Table_props t) = handleModal t \<and>
   sent (click_Cancel (Table_props t) a)
     = sent a @ [(getLeads_requestOptions t)\<lparr>url := ''/api/leads''\<rparr>] \<and>
   method (getLeads_requestOptions t) = ''GET'' \<and>
   body (getLeads_requestOptions t) = None \<and>
   activeModal (table (click_Cancel (Table_props t) a)) = JNull \<and>
   LeadModal_className (Table_props (table (click_Cancel (Table_props t) a))) = ''modal null''"
  by (simp add: click_Cancel_def Table_props_def table_handleModal sent_handleModal
      getLeads_requestOptions_def)

text \<open>
  C9. The \<^verbatim>\<open>setErrorMessage\<close> prop of the modal is the table's own setter, and the table
  renders one message, the value of \<^verbatim>\<open>errorMessage\<close>. So a failed create after a failed
  load leaves the create message, and a failed load after a failed create leaves the load
  message: the later failure overwrites the earlier one.
\<close>

theorem shared_errorMessage:
  "p_setErrorMessage (Table_props t) = setErrorMessage \<and>
   ErrorMessage_elem (Table_render moment (table a)) = errorMessage (table a) \<and>
   errorMessage
       (table (handleCreateLead_then (Table_props t) (Resolved \<lparr>ok = False, json = d\<rparr>)
          (getLeads_then (Resolved \<lparr>ok = False, json = d'\<rparr>) a)))
     = ''Something went wrong when creating lead'' \<and>
   errorMessage
       (table (getLeads_then (Resolved \<lparr>ok = False, json = d'\<rparr>)
          (handleCreateLead_then (Table_props t) (Resolved \<lparr>ok = False, json = d\<rparr>) a)))
     = ''Something went wrong!''"
  by (simp add: Table_props_def Table_render_def setErrorMessage_def)

text \<open>
  C10. Changing an input to a value twice leaves the same state as changing it once, for
  each of the five inputs and every value.
\<close>

theorem onChange_idempotent: "onChange f v (onChange f v a) = onChange f v a"
  by (cases f)
    (simp_all add: setFirstName_def setLastName_def setCompany_def setEmail_def setNote_def)

section \<open>The date column\<close>

lemma show_nat_lt10: "n < 10 \<Longrightarrow> show_nat n = [''0123456789'' ! n]"
  by (subst show_nat.simps) simp

lemma show_nat_lt100:
  "10 \<le> n \<Longrightarrow> n < 100 \<Longrightarrow>
   show_nat n = [''0123456789'' ! (n div 10), ''0123456789'' ! (n mod 10)]"
  by (subst show_nat.simps) (simp add: show_nat_lt10)

lemma YY_digits: "YY y = [''0123456789'' ! (y mod 100 div 10), ''0123456789'' ! (y mod 10)]"
proof (cases "y mod 100 < 10")
  case True
  have "y mod 10 = y mod 100 mod 10"
    by (simp add: mod_mod_cancel)
  also have "\<dots> = y mod 100"
    using True by simp
  finally have "y mod 100 = y mod 10" by simp
  with True show ?thesis
    by (simp add: YY_def show_nat_lt10)
next
  case False
  have "y mod 100 mod 10 = y mod 10"
    by (simp add: mod_mod_cancel)
  with False show ?thesis
    by (simp add: YY_def show_nat_lt100)
qed

lemma length_MMM: "length (MMM m) = 3"
  by (cases m) simp_all

lemma ordinal_suffix_cases: "ordinal_suffix n \<in> {''st'', ''nd'', ''rd'', ''th''}"
  by (simp add: ordinal_suffix_def)

lemma format_example:
  "format_MMM_Do_YY \<lparr>year = 2024, month_of = Jan, day = 2\<rparr> = ''Jan 2nd 24''"
  by (simp add: format_MMM_Do_YY_def Do_def YY_digits show_nat_lt10 ordinal_suffix_def)

text \<open>
  C8. In a loaded table the sixth cell of each row is the formatting function applied to
  the date that \<^verbatim>\<open>moment\<close> reads from the \<^verbatim>\<open>date_last_updated\<close> of that row's record. The
  formatted text is the month's three-letter name, a space, the day in decimal with its
  ordinal suffix (one of st, nd, rd, th), a space, and the two last decimal digits of the
  year; the second of January 2024 gives "Jan 2nd 24".
\<close>

theorem date_column:
  assumes "loaded t" and "leads t = Some ls"
  shows "content (Table_render moment t) = Table_elem Table_thead (map (lead_tr moment) ls) \<and>
    map (\<lambda>r. tds r ! 5) (map (lead_tr moment) ls)
      = map (\<lambda>l. Text (format_MMM_Do_YY (moment (date_last_updated l)))) ls \<and>
    format_MMM_Do_YY d
      = MMM (month_of d) @ '' '' @ show_nat (day d) @ ordinal_suffix (day d) @ '' ''
          @ YY (year d) \<and>
    length (MMM (month_of d)) = 3 \<and>
    ordinal_suffix (day d) \<in> {''st'', ''nd'', ''rd'', ''th''} \<and>
    YY (year d) = [''0123456789'' ! (year d mod 100 div 10), ''0123456789'' ! (year d mod 10)] \<and>
    format_MMM_Do_YY \<lparr>year = 2024, month_of = Jan, day = 2\<rparr> = ''Jan 2nd 24''"
proof -
  have "content (Table_render moment t) = Table_elem Table_thead (map (lead_tr moment) ls)"
    using assms by (simp add: Table_render_def)
  moreover have "map (\<lambda>r. tds r ! 5) (map (lead_tr moment) ls)
      = map (\<lambda>l. Text (format_MMM_Do_YY (moment (date_last_updated l)))) ls"
    by (simp add: lead_tr_def)
  moreover have "format_MMM_Do_YY d
      = MMM (month_of d) @ '' '' @ show_nat (day d) @ ordinal_suffix (day d) @ '' ''
          @ YY (year d)"
    by (simp add: format_MMM_Do_YY_def Do_def)
  ultimately show ?thesis
    using length_MMM ordinal_suffix_cases YY_digits format_example by blast
qed

theorem date_column_witness:
  "loaded example_Table \<and> leads example_Table = Some [example_lead] \<and>
   content (Table_render example_moment example_Table)
     = Table_elem Table_thead
         [\<lparr>key = 1,
           tds = [Text ''Ada'', Text ''Lovelace'', Text ''Analytical'', Text ''ada@example.org'',
                  Text ''call back'', Text ''Jan 2nd 24'', Buttons [''Update'', ''Delete'']]\<rparr>]"
proof -
  have l: "loaded example_Table"
    by (simp add: example_Table_def)
  have s: "leads example_Table = Some [example_lead]"
    by (simp add: example_Table_def)
  show ?thesis
    using l s date_column [OF l s, of example_moment "example_moment []"]
    by (simp add: lead_tr_def example_lead_def example_moment_def show_nat_lt10
        ordinal_suffix_def)
qed

end
